theory Spec2Isabelle
  imports Main "HOL-Library.Word"
begin

section \<open>The Kafka relay plugin\<close>

text \<open>
  A shallow embedding of \<^verbatim>\<open>KafkaRelayPlugin\<close>: its constructor (the options handed to
  the Kafka client, with the TLS policy), \<^verbatim>\<open>init()\<close> and \<^verbatim>\<open>relay()\<close>.

  The logger, the tracer and the Kafka client are collaborators behind interfaces. Each
  of their methods is a function from the arguments of the call to its outcome: it
  returns (a value) or it throws. Every call the plugin makes is recorded, in order, in
  a list of events, so that what was logged, published, started and ended can be read
  off the result of a call. A call is taken to settle: a promise that is never
  resolved nor rejected is outside this model.
\<close>

subsection \<open>Values of the JavaScript runtime\<close>

type_synonym byte = "8 word"

text \<open>
  A thrown value. \<open>Thrown m\<close> is a value that is neither \<^verbatim>\<open>null\<close> nor \<^verbatim>\<open>undefined\<close> and
  whose \<^verbatim>\<open>message\<close> property reads \<open>m\<close> inside a template literal: for
  \<^verbatim>\<open>new Error("boom")\<close> that is \<open>''boom''\<close>.
\<close>

datatype thrown = ThrownNull | ThrownUndefined | Thrown string

text \<open>\<^verbatim>\<open>(error as Error).message\<close>: reading a property of a nullish value throws a TypeError.\<close>

fun message :: "thrown \<Rightarrow> thrown + string" where
  "message (Thrown m) = Inr m"
| "message ThrownNull = Inl (Thrown ''Cannot read properties of null (reading 'message')'')"
| "message ThrownUndefined =
     Inl (Thrown ''Cannot read properties of undefined (reading 'message')'')"

text \<open>\<^verbatim>\<open>a ?? b\<close> where \<open>b\<close> may be undefined too, and where \<open>b\<close> is a value.\<close>

definition nullish_or :: "'a option \<Rightarrow> 'a option \<Rightarrow> 'a option" where
  "nullish_or a b = (case a of Some v \<Rightarrow> Some v | None \<Rightarrow> b)"

definition nullish_else :: "'a option \<Rightarrow> 'a \<Rightarrow> 'a" where
  "nullish_else a d = (case a of Some v \<Rightarrow> v | None \<Rightarrow> d)"

text \<open>A string that may be undefined, inside a template literal.\<close>

definition template :: "string option \<Rightarrow> string" where
  "template a = (case a of Some v \<Rightarrow> v | None \<Rightarrow> ''undefined'')"

text \<open>The decimal digits of a number, as \<^verbatim>\<open>JSON.stringify\<close> prints an index or a byte.\<close>

function decimal :: "nat \<Rightarrow> string" where
  "decimal n =
     (if n < 10 then [char_of (48 + n)] else decimal (n div 10) @ [char_of (48 + n mod 10)])"
  by pat_completeness auto
termination
  by (relation "measure (\<lambda>n. n)") auto

declare decimal.simps [simp del]

text \<open>
  \<^verbatim>\<open>JSON.stringify\<close> of a typed array: an object whose keys are the indices,
  \<^verbatim>\<open>{"0":104,"1":105}\<close>.
\<close>

fun json_entries :: "nat \<Rightarrow> byte list \<Rightarrow> string list" where
  "json_entries i [] = []"
| "json_entries i (b # bs) =
     ([CHR 0x22] @ decimal i @ [CHR 0x22] @ '':'' @ decimal (unat b)) # json_entries (Suc i) bs"

fun join_commas :: "string list \<Rightarrow> string" where
  "join_commas [] = []"
| "join_commas [s] = s"
| "join_commas (s # t # ss) = s @ '','' @ join_commas (t # ss)"

definition JSON_stringify :: "byte list \<Rightarrow> string" where
  "JSON_stringify bs = ''{'' @ join_commas (json_entries 0 bs) @ ''}''"

subsection \<open>Configuration\<close>

text \<open>
  The value \<^verbatim>\<open>validateProcessorConfig\<close> returns. The fields the code guards with \<^verbatim>\<open>??\<close> or
  tests for truthiness can be undefined at run time, whatever the interface declares.
\<close>

record Configuration =
  DESTINATION_TRANSPORT_URL :: "string option"
  PRODUCER_STREAM :: string
  KAFKA_TLS_CA :: "string option"
  CLIENT_ID :: "string option"
  NODE_ENV :: "string option"

datatype ssl_option = SslFalse | SslOptions (rejectUnauthorized: bool) (ca: "string list")

datatype logLevel = NOTHING | ERROR | WARN | INFO | DEBUG

record KafkaConfig =
  clientId :: string
  brokers :: "string list"
  ssl :: ssl_option
  logLevel :: logLevel

text \<open>The first argument is \<^verbatim>\<open>process.env.NODE_ENV\<close>.\<close>

definition isDev :: "string option \<Rightarrow> Configuration \<Rightarrow> bool" where
  "isDev env_NODE_ENV cfg =
     (nullish_else (nullish_or (NODE_ENV cfg) env_NODE_ENV) ''dev'' = ''dev'')"

text \<open>A string is truthy when it is defined and not empty.\<close>

definition truthy :: "string option \<Rightarrow> bool" where
  "truthy a = (case a of Some v \<Rightarrow> v \<noteq> [] | None \<Rightarrow> False)"

definition ssl_of :: "string option \<Rightarrow> Configuration \<Rightarrow> ssl_option" where
  "ssl_of env_NODE_ENV cfg =
     (if isDev env_NODE_ENV cfg then SslFalse
      else SslOptions False
             (if truthy (KAFKA_TLS_CA cfg) then [the (KAFKA_TLS_CA cfg)] else []))"

text \<open>The options handed to \<^verbatim>\<open>new Kafka\<close>.\<close>

definition kafka_options :: "string option \<Rightarrow> Configuration \<Rightarrow> KafkaConfig" where
  "kafka_options env_NODE_ENV cfg =
     \<lparr>clientId = nullish_else (CLIENT_ID cfg) ''relay-plugin'',
      brokers = [nullish_else (DESTINATION_TRANSPORT_URL cfg) ''localhost:9092''],
      ssl = ssl_of env_NODE_ENV cfg,
      logLevel = ERROR\<rparr>"

subsection \<open>Collaborators\<close>

text \<open>A transaction or a span: calling \<^verbatim>\<open>end()\<close> returns (\<open>None\<close>) or throws.\<close>

datatype handle = Handle (end_call: "thrown option")

text \<open>The tracer may return \<^verbatim>\<open>null\<close> instead of a handle.\<close>

record Apm =
  startTransaction :: "string \<Rightarrow> thrown + handle option"
  startSpan :: "string \<Rightarrow> thrown + handle option"

record LoggerService =
  log :: "string \<Rightarrow> string \<Rightarrow> thrown option"
  error :: "string \<Rightarrow> string \<Rightarrow> thrown option"

record Message =
  "value" :: string

record ProducerRecord =
  topic :: string
  messages :: "Message list"

text \<open>\<^verbatim>\<open>connect()\<close> and \<^verbatim>\<open>send(record)\<close> resolve (\<open>None\<close>) or reject.\<close>

record Producer =
  connect :: "thrown option"
  send :: "ProducerRecord \<Rightarrow> thrown option"

text \<open>The Kafka client: the options it was built with, and what \<^verbatim>\<open>producer()\<close> gives.\<close>

record Kafka =
  options :: KafkaConfig
  kafka_producer :: "thrown + Producer"

record KafkaRelayPlugin =
  kafka :: Kafka
  producer :: "Producer option"
  loggerService :: LoggerService
  apm :: Apm
  configuration :: Configuration

datatype event =
    StartTransaction string
  | StartSpan string
  | Log string string
  | ErrorLog string string
  | ProducerCreated
  | Connect
  | Send ProducerRecord
  | SpanEnd
  | TransactionEnd

definition KafkaRelayPlugin_name :: string where
  "KafkaRelayPlugin_name = ''KafkaRelayPlugin''"

subsection \<open>The payload\<close>

text \<open>
  What \<^verbatim>\<open>relay\<close> is given: a Node \<^verbatim>\<open>Buffer\<close>, a \<^verbatim>\<open>Uint8Array\<close> that is not a
  \<^verbatim>\<open>Buffer\<close>, or a string.
\<close>

datatype payload = BufferData "byte list" | Uint8ArrayData "byte list" | StringData string

text \<open>
  \<^verbatim>\<open>Buffer.isBuffer(data) ? data.toString() : typeof data === 'string' ? data : JSON.stringify(data)\<close>.
  The first argument is \<^verbatim>\<open>Buffer.prototype.toString\<close>, the UTF-8 decoder of the Node
  runtime.
\<close>

definition payload_text :: "(byte list \<Rightarrow> string) \<Rightarrow> payload \<Rightarrow> string" where
  "payload_text toString data =
     (case data of
        BufferData bs \<Rightarrow> toString bs
      | StringData s \<Rightarrow> s
      | Uint8ArrayData bs \<Rightarrow> JSON_stringify bs)"

subsection \<open>The constructor\<close>

text \<open>
  \<open>kafkajs\<close> is the behaviour of the client library (what \<^verbatim>\<open>producer()\<close> of a client built
  with given options gives), \<open>validateProcessorConfig\<close> the outcome of the call of that
  name, \<open>env_NODE_ENV\<close> is \<^verbatim>\<open>process.env.NODE_ENV\<close>.
\<close>

definition new_Kafka :: "(KafkaConfig \<Rightarrow> thrown + Producer) \<Rightarrow> KafkaConfig \<Rightarrow> Kafka" where
  "new_Kafka kafkajs opts = \<lparr>options = opts, kafka_producer = kafkajs opts\<rparr>"

definition new_KafkaRelayPlugin ::
  "(KafkaConfig \<Rightarrow> thrown + Producer) \<Rightarrow> thrown + Configuration \<Rightarrow> string option \<Rightarrow>
   LoggerService \<Rightarrow> Apm \<Rightarrow> thrown + KafkaRelayPlugin" where
  "new_KafkaRelayPlugin kafkajs validateProcessorConfig env_NODE_ENV logger tracer =
     (case validateProcessorConfig of
        Inl e \<Rightarrow> Inl e
      | Inr cfg \<Rightarrow>
          Inr \<lparr>kafka = new_Kafka kafkajs (kafka_options env_NODE_ENV cfg),
               producer = None,
               loggerService = logger,
               apm = tracer,
               configuration = cfg\<rparr>)"

subsection \<open>init\<close>

text \<open>The events of the call, its outcome (\<open>Inl\<close>: the promise rejects) and the instance after it.\<close>

definition init :: "KafkaRelayPlugin \<Rightarrow> event list \<times> (thrown + unit) \<times> KafkaRelayPlugin" where
  "init this =
     (let m1 = ''Initializing Kafka producer for broker: ''
                 @ template (DESTINATION_TRANSPORT_URL (configuration this));
          m2 = ''Kafka producer connected''
      in case log (loggerService this) m1 KafkaRelayPlugin_name of
           Some e \<Rightarrow> ([Log m1 KafkaRelayPlugin_name], Inl e, this)
         | None \<Rightarrow>
        (case kafka_producer (kafka this) of
           Inl e \<Rightarrow> ([Log m1 KafkaRelayPlugin_name, ProducerCreated], Inl e, this)
         | Inr p \<Rightarrow>
        (let this' = this\<lparr>producer := Some p\<rparr>
         in case connect p of
              Some e \<Rightarrow> ([Log m1 KafkaRelayPlugin_name, ProducerCreated, Connect], Inl e, this')
            | None \<Rightarrow>
                ([Log m1 KafkaRelayPlugin_name, ProducerCreated, Connect,
                  Log m2 KafkaRelayPlugin_name],
                 (case log (loggerService this) m2 KafkaRelayPlugin_name of
                    Some e \<Rightarrow> Inl e
                  | None \<Rightarrow> Inr ()),
                 this'))))"

subsection \<open>relay\<close>

text \<open>
  A statement gives the events of its calls and \<open>Some e\<close> when it throws \<open>e\<close>.
  \<open>then_run\<close> is the sequence of two statements: the second runs when the first did not
  throw.
\<close>

type_synonym statement = "event list \<times> thrown option"

definition then_run :: "statement \<Rightarrow> statement \<Rightarrow> statement" where
  "then_run s1 s2 =
     (case snd s1 of Some e \<Rightarrow> s1 | None \<Rightarrow> (fst s1 @ fst s2, snd s2))"

text \<open>\<^verbatim>\<open>this.loggerService.log(`Sending data to Kafka topic: ...`, KafkaRelayPlugin.name)\<close>\<close>

definition relay_log :: "KafkaRelayPlugin \<Rightarrow> statement" where
  "relay_log this =
     (let m = ''Sending data to Kafka topic: '' @ PRODUCER_STREAM (configuration this)
      in ([Log m KafkaRelayPlugin_name], log (loggerService this) m KafkaRelayPlugin_name))"

text \<open>\<^verbatim>\<open>await this.producer?.send({topic, messages: [{value: payload}]})\<close>\<close>

definition relay_send :: "KafkaRelayPlugin \<Rightarrow> string \<Rightarrow> statement" where
  "relay_send this text =
     (let r = \<lparr>topic = PRODUCER_STREAM (configuration this), messages = [\<lparr>value = text\<rparr>]\<rparr>
      in case producer this of
           None \<Rightarrow> ([], None)
         | Some p \<Rightarrow> ([Send r], send p r))"

text \<open>\<^verbatim>\<open>span?.end()\<close>\<close>

definition span_end :: "handle option \<Rightarrow> statement" where
  "span_end span = (case span of None \<Rightarrow> ([], None) | Some h \<Rightarrow> ([SpanEnd], end_call h))"

text \<open>\<^verbatim>\<open>apmTransaction?.end()\<close>\<close>

definition transaction_end :: "handle option \<Rightarrow> statement" where
  "transaction_end apmTransaction =
     (case apmTransaction of None \<Rightarrow> ([], None) | Some h \<Rightarrow> ([TransactionEnd], end_call h))"

text \<open>
  The \<^verbatim>\<open>try\<close> block: its events, the value of \<^verbatim>\<open>apmTransaction\<close> when it is left, and the
  exception it is left with, if any.
\<close>

definition relay_try ::
  "(byte list \<Rightarrow> string) \<Rightarrow> KafkaRelayPlugin \<Rightarrow> payload \<Rightarrow>
   event list \<times> handle option \<times> thrown option" where
  "relay_try toString this data =
     (case startTransaction (apm this) KafkaRelayPlugin_name of
        Inl e \<Rightarrow> ([StartTransaction KafkaRelayPlugin_name], None, Some e)
      | Inr apmTransaction \<Rightarrow>
          (case startSpan (apm this) ''relay'' of
             Inl e \<Rightarrow>
               ([StartTransaction KafkaRelayPlugin_name, StartSpan ''relay''],
                apmTransaction, Some e)
           | Inr span \<Rightarrow>
               (let rest = then_run (relay_log this)
                            (then_run (relay_send this (payload_text toString data))
                              (span_end span))
                in ([StartTransaction KafkaRelayPlugin_name, StartSpan ''relay''] @ fst rest,
                    apmTransaction, snd rest))))"

text \<open>The \<^verbatim>\<open>catch\<close> block, entered with the exception \<open>e\<close>.\<close>

definition relay_catch :: "KafkaRelayPlugin \<Rightarrow> thrown \<Rightarrow> statement" where
  "relay_catch this e =
     (case message e of
        Inl type_error \<Rightarrow> ([], Some type_error)
      | Inr m \<Rightarrow>
          ([ErrorLog (''Kafka relay error: '' @ m) KafkaRelayPlugin_name],
           error (loggerService this) (''Kafka relay error: '' @ m) KafkaRelayPlugin_name))"

text \<open>
  The whole call: \<^verbatim>\<open>try\<close>, \<^verbatim>\<open>catch\<close> when the block threw, \<^verbatim>\<open>finally\<close> always. An
  exception of the \<^verbatim>\<open>finally\<close> block replaces one of the \<^verbatim>\<open>catch\<close> block.
\<close>

definition relay ::
  "(byte list \<Rightarrow> string) \<Rightarrow> KafkaRelayPlugin \<Rightarrow> payload \<Rightarrow> event list \<times> (thrown + unit)" where
  "relay toString this data =
     (case relay_try toString this data of
        (t1, apmTransaction, r1) \<Rightarrow>
          (let caught = (case r1 of None \<Rightarrow> ([], None) | Some e \<Rightarrow> relay_catch this e);
               final = transaction_end apmTransaction
           in (t1 @ fst caught @ fst final,
               (case snd final of
                  Some e \<Rightarrow> Inl e
                | None \<Rightarrow> (case snd caught of Some e \<Rightarrow> Inl e | None \<Rightarrow> Inr ())))))"

subsection \<open>What a call did\<close>

fun published :: "event list \<Rightarrow> ProducerRecord list" where
  "published [] = []"
| "published (Send r # es) = r # published es"
| "published (_ # es) = published es"

fun error_logs :: "event list \<Rightarrow> string list" where
  "error_logs [] = []"
| "error_logs (ErrorLog m _ # es) = m # error_logs es"
| "error_logs (_ # es) = error_logs es"

subsection \<open>Collaborators that never fail\<close>

text \<open>The collaborators of the test suite: every call returns.\<close>

definition mockLoggerService :: LoggerService where
  "mockLoggerService = \<lparr>log = (\<lambda>_ _. None), error = (\<lambda>_ _. None)\<rparr>"

definition mockApm :: Apm where
  "mockApm = \<lparr>startTransaction = (\<lambda>_. Inr (Some (Handle None))),
              startSpan = (\<lambda>_. Inr (Some (Handle None)))\<rparr>"

definition mockProducer :: Producer where
  "mockProducer = \<lparr>connect = None, send = (\<lambda>_. None)\<rparr>"

definition test_config :: Configuration where
  "test_config = \<lparr>DESTINATION_TRANSPORT_URL = Some ''localhost:9092'',
                 PRODUCER_STREAM = ''test-topic'',
                 KAFKA_TLS_CA = Some ''FAKE_CA_CERT'',
                 CLIENT_ID = Some ''test-client'',
                 NODE_ENV = Some ''prod''\<rparr>"

text \<open>An instance as the constructor leaves it, and one after a successful \<^verbatim>\<open>init()\<close>.\<close>

text \<open>A producer whose broker cannot be reached, one whose publish is rejected, a logger whose sink is down.\<close>

definition unreachableProducer :: Producer where
  "unreachableProducer =
     \<lparr>connect = Some (Thrown ''Connection error''),
      send = (\<lambda>_. Some (Thrown ''The producer is disconnected''))\<rparr>"

definition rejectingProducer :: Producer where
  "rejectingProducer = \<lparr>connect = None, send = (\<lambda>_. Some (Thrown ''boom''))\<rparr>"

definition brokenLoggerService :: LoggerService where
  "brokenLoggerService =
     \<lparr>log = (\<lambda>_ _. Some (Thrown ''logger down'')),
      error = (\<lambda>_ _. Some (Thrown ''logger down''))\<rparr>"

definition fresh_plugin :: KafkaRelayPlugin where
  "fresh_plugin =
     \<lparr>kafka = new_Kafka (\<lambda>_. Inr mockProducer) (kafka_options None test_config),
      producer = None,
      loggerService = mockLoggerService,
      apm = mockApm,
      configuration = test_config\<rparr>"

definition ready_plugin :: KafkaRelayPlugin where
  "ready_plugin = fresh_plugin\<lparr>producer := Some mockProducer\<rparr>"

text \<open>
  Instances around those collaborators: one whose publish is rejected, one whose logger
  is down, one not yet initialised whose broker cannot be reached.
\<close>

definition rejecting_plugin :: KafkaRelayPlugin where
  "rejecting_plugin = fresh_plugin\<lparr>producer := Some rejectingProducer\<rparr>"

definition broken_logger_plugin :: KafkaRelayPlugin where
  "broken_logger_plugin = ready_plugin\<lparr>loggerService := brokenLoggerService\<rparr>"

definition unreachable_plugin :: KafkaRelayPlugin where
  "unreachable_plugin =
     fresh_plugin\<lparr>kafka := new_Kafka (\<lambda>_. Inr unreachableProducer)
                                    (kafka_options None test_config)\<rparr>"

text \<open>A tracer that is down, and one whose transactions cannot be ended.\<close>

definition throwingApm :: Apm where
  "throwingApm = \<lparr>startTransaction = (\<lambda>_. Inl (Thrown ''tracer down'')),
                  startSpan = (\<lambda>_. Inl (Thrown ''tracer down''))\<rparr>"

definition brokenEndApm :: Apm where
  "brokenEndApm = \<lparr>startTransaction = (\<lambda>_. Inr (Some (Handle (Some (Thrown ''end failed''))))),
                   startSpan = (\<lambda>_. Inr (Some (Handle None)))\<rparr>"

text \<open>A decoder for 7-bit text, on which it agrees with the one of the runtime.\<close>

definition ascii_toString :: "byte list \<Rightarrow> string" where
  "ascii_toString bs = map (\<lambda>b. char_of (unat b)) bs"

section \<open>Properties\<close>

lemmas fixture_defs =
  fresh_plugin_def ready_plugin_def rejecting_plugin_def broken_logger_plugin_def
  unreachable_plugin_def mockLoggerService_def mockApm_def mockProducer_def
  unreachableProducer_def rejectingProducer_def brokenLoggerService_def test_config_def
  new_Kafka_def

lemmas relay_defs =
  relay_def relay_try_def relay_catch_def relay_log_def relay_send_def span_end_def
  transaction_end_def then_run_def payload_text_def KafkaRelayPlugin_name_def

lemmas options_defs =
  kafka_options_def ssl_of_def isDev_def truthy_def nullish_or_def nullish_else_def

subsection \<open>The TLS policy\<close>

lemma constructor_options:
  "new_KafkaRelayPlugin kafkajs (Inr cfg) env logger tracer = Inr p \<Longrightarrow>
   options (kafka p) = kafka_options env cfg \<and> producer p = None"
  by (auto simp: new_KafkaRelayPlugin_def new_Kafka_def)

text \<open>
  Claim C3. When the tier is development, that is when \<^verbatim>\<open>NODE_ENV\<close> of the
  configuration is \<^verbatim>\<open>'dev'\<close>, or is unset while \<^verbatim>\<open>process.env.NODE_ENV\<close> is \<^verbatim>\<open>'dev'\<close> or
  unset too, construction succeeds and the \<^verbatim>\<open>ssl\<close> option handed to the Kafka client is
  \<^verbatim>\<open>false\<close>, whatever the CA material.
\<close>

theorem dev_tier_disables_tls:
  assumes "NODE_ENV cfg = Some ''dev''
           \<or> (NODE_ENV cfg = None \<and> (env = Some ''dev'' \<or> env = None))"
  shows "\<exists>p. new_KafkaRelayPlugin kafkajs (Inr cfg) env logger tracer = Inr p
             \<and> ssl (options (kafka p)) = SslFalse"
  using assms by (auto simp: new_KafkaRelayPlugin_def new_Kafka_def options_defs)

theorem dev_tier_disables_tls_witness:
  "(\<exists>p. new_KafkaRelayPlugin (\<lambda>_. Inr mockProducer)
           (Inr (test_config\<lparr>NODE_ENV := None\<rparr>)) None mockLoggerService mockApm = Inr p
        \<and> ssl (options (kafka p)) = SslFalse)
   \<and> (\<exists>p. new_KafkaRelayPlugin (\<lambda>_. Inr mockProducer)
           (Inr (test_config\<lparr>NODE_ENV := Some ''dev'', KAFKA_TLS_CA := None\<rparr>))
           (Some ''prod'') mockLoggerService mockApm = Inr p
        \<and> ssl (options (kafka p)) = SslFalse)"
  using dev_tier_disables_tls [of "test_config\<lparr>NODE_ENV := None\<rparr>" None
          "\<lambda>_. Inr mockProducer" mockLoggerService mockApm]
        dev_tier_disables_tls
          [of "test_config\<lparr>NODE_ENV := Some ''dev'', KAFKA_TLS_CA := None\<rparr>"
            "Some ''prod''" "\<lambda>_. Inr mockProducer" mockLoggerService mockApm]
  by (simp add: test_config_def)

text \<open>
  Claim C4. When the tier is set (in the configuration or, failing that, in the process
  environment) to anything but \<^verbatim>\<open>'dev'\<close>, construction succeeds and the \<^verbatim>\<open>ssl\<close> option is
  an object with \<^verbatim>\<open>rejectUnauthorized: false\<close> and a CA list that is \<^verbatim>\<open>[CA]\<close> when the CA
  material is present and not empty, and the empty list when it is absent (or empty): a
  list in every case.
\<close>

theorem non_dev_tier_tls_policy:
  assumes "nullish_or (NODE_ENV cfg) env = Some tier" and "tier \<noteq> ''dev''"
  shows "\<exists>p. new_KafkaRelayPlugin kafkajs (Inr cfg) env logger tracer = Inr p
             \<and> ssl (options (kafka p)) =
                 SslOptions False
                   (case KAFKA_TLS_CA cfg of
                      None \<Rightarrow> []
                    | Some c \<Rightarrow> if c = [] then [] else [c])"
  using assms
  by (auto simp: new_KafkaRelayPlugin_def new_Kafka_def options_defs split: option.splits)

theorem non_dev_tier_tls_policy_witness:
  "(\<exists>p. new_KafkaRelayPlugin (\<lambda>_. Inr mockProducer) (Inr test_config) None
           mockLoggerService mockApm = Inr p
        \<and> ssl (options (kafka p)) = SslOptions False [''FAKE_CA_CERT''])
   \<and> (\<exists>p. new_KafkaRelayPlugin (\<lambda>_. Inr mockProducer)
           (Inr (test_config\<lparr>KAFKA_TLS_CA := None\<rparr>)) None mockLoggerService mockApm = Inr p
        \<and> ssl (options (kafka p)) = SslOptions False [])"
  using non_dev_tier_tls_policy [of test_config None "''prod''"
          "\<lambda>_. Inr mockProducer" mockLoggerService mockApm]
        non_dev_tier_tls_policy [of "test_config\<lparr>KAFKA_TLS_CA := None\<rparr>" None "''prod''"
          "\<lambda>_. Inr mockProducer" mockLoggerService mockApm]
  by (simp add: test_config_def nullish_or_def)

text \<open>
  Claim C9. The tier test made by the constructor is equality with the string
  \<^verbatim>\<open>'dev'\<close>. The tier variable is \<^verbatim>\<open>NODE_ENV\<close> of the configuration or, when that is unset,
  of the process environment. The \<^verbatim>\<open>ssl\<close> option the constructor hands to the Kafka
  client is \<^verbatim>\<open>false\<close> exactly when the variable is unset or is \<^verbatim>\<open>'dev'\<close>; for every other
  value (\<^verbatim>\<open>'development'\<close>, \<^verbatim>\<open>'DEV'\<close>) it is the object of the other tiers, with
  \<^verbatim>\<open>rejectUnauthorized: false\<close> and the CA list made of the CA material.
\<close>

theorem tier_test_is_exact_equality:
  "\<exists>p. new_KafkaRelayPlugin kafkajs (Inr cfg) env logger tracer = Inr p
       \<and> ssl (options (kafka p)) =
           (case (case NODE_ENV cfg of Some t \<Rightarrow> Some t | None \<Rightarrow> env) of
              None \<Rightarrow> SslFalse
            | Some tier \<Rightarrow>
                if tier = ''dev'' then SslFalse
                else SslOptions False
                       (case KAFKA_TLS_CA cfg of
                          None \<Rightarrow> []
                        | Some c \<Rightarrow> if c = [] then [] else [c]))
       \<and> (ssl (options (kafka p)) = SslFalse) =
           (NODE_ENV cfg = Some ''dev''
            \<or> (NODE_ENV cfg = None \<and> (env = Some ''dev'' \<or> env = None)))"
  by (auto simp: new_KafkaRelayPlugin_def new_Kafka_def options_defs split: option.splits)

theorem tier_test_is_exact_equality_witness:
  "(\<exists>p. new_KafkaRelayPlugin (\<lambda>_. Inr mockProducer)
           (Inr (test_config\<lparr>NODE_ENV := Some ''development''\<rparr>)) None
           mockLoggerService mockApm = Inr p
        \<and> ssl (options (kafka p)) = SslOptions False [''FAKE_CA_CERT''])
   \<and> (\<exists>p. new_KafkaRelayPlugin (\<lambda>_. Inr mockProducer)
           (Inr (test_config\<lparr>NODE_ENV := Some ''DEV''\<rparr>)) None
           mockLoggerService mockApm = Inr p
        \<and> ssl (options (kafka p)) = SslOptions False [''FAKE_CA_CERT''])
   \<and> (\<exists>p. new_KafkaRelayPlugin (\<lambda>_. Inr mockProducer)
           (Inr (test_config\<lparr>NODE_ENV := Some ''dev''\<rparr>)) None
           mockLoggerService mockApm = Inr p
        \<and> ssl (options (kafka p)) = SslFalse)
   \<and> (\<exists>p. new_KafkaRelayPlugin (\<lambda>_. Inr mockProducer)
           (Inr (test_config\<lparr>NODE_ENV := None\<rparr>)) None
           mockLoggerService mockApm = Inr p
        \<and> ssl (options (kafka p)) = SslFalse)
   \<and> (\<exists>p. new_KafkaRelayPlugin (\<lambda>_. Inr mockProducer)
           (Inr (test_config\<lparr>NODE_ENV := None\<rparr>)) (Some ''production'')
           mockLoggerService mockApm = Inr p
        \<and> ssl (options (kafka p)) = SslOptions False [''FAKE_CA_CERT''])"
  using tier_test_is_exact_equality [of "\<lambda>_. Inr mockProducer"
          "test_config\<lparr>NODE_ENV := Some ''development''\<rparr>" None mockLoggerService mockApm]
        tier_test_is_exact_equality [of "\<lambda>_. Inr mockProducer"
          "test_config\<lparr>NODE_ENV := Some ''DEV''\<rparr>" None mockLoggerService mockApm]
        tier_test_is_exact_equality [of "\<lambda>_. Inr mockProducer"
          "test_config\<lparr>NODE_ENV := Some ''dev''\<rparr>" None mockLoggerService mockApm]
        tier_test_is_exact_equality [of "\<lambda>_. Inr mockProducer"
          "test_config\<lparr>NODE_ENV := None\<rparr>" None mockLoggerService mockApm]
        tier_test_is_exact_equality [of "\<lambda>_. Inr mockProducer"
          "test_config\<lparr>NODE_ENV := None\<rparr>" "Some ''production''" mockLoggerService mockApm]
  by (simp add: test_config_def) blast

subsection \<open>relay\<close>

lemma published_append: "published (xs @ ys) = published xs @ published ys"
  by (induction xs rule: published.induct) simp_all

lemma error_logs_append: "error_logs (xs @ ys) = error_logs xs @ error_logs ys"
  by (induction xs rule: error_logs.induct) simp_all

lemma published_span_end: "published (fst (span_end span)) = []"
  by (simp add: span_end_def split: option.splits)

lemma published_transaction_end: "published (fst (transaction_end tx)) = []"
  by (simp add: transaction_end_def split: option.splits)

lemma published_relay_catch: "published (fst (relay_catch this e)) = []"
  by (simp add: relay_catch_def split: sum.splits)
lemma relay_try_transaction_started:
  "startTransaction (apm this) KafkaRelayPlugin_name = Inr tx \<Longrightarrow>
   fst (snd (relay_try toString this data)) = tx"
  by (simp add: relay_try_def Let_def split: sum.splits)

lemma error_logs_statement [simp]:
  "error_logs (fst (relay_log this)) = []"
  "error_logs (fst (relay_send this text)) = []"
  "error_logs (fst (span_end span)) = []"
  "error_logs (fst (transaction_end tx)) = []"
  by (simp_all add: relay_log_def relay_send_def span_end_def transaction_end_def Let_def
        split: option.splits)

lemma error_logs_then_run:
  "error_logs (fst s1) = [] \<Longrightarrow> error_logs (fst s2) = [] \<Longrightarrow>
   error_logs (fst (then_run s1 s2)) = []"
  by (simp add: then_run_def error_logs_append split: option.splits)

lemma error_logs_relay_try: "error_logs (fst (relay_try toString this data)) = []"
  by (simp add: relay_try_def Let_def error_logs_then_run split: sum.splits)

text \<open>
  Claim C5. On an instance that holds a producer, when the tracer calls and the log call
  that come before the publish return, \<^verbatim>\<open>relay(text)\<close> hands the producer one record and
  no more: its topic is \<^verbatim>\<open>PRODUCER_STREAM\<close> and its messages are \<^verbatim>\<open>[{value: text}]\<close>, the
  text as it was given.
\<close>

theorem relay_text_publishes_once:
  assumes "producer this = Some p"
    and "startTransaction (apm this) KafkaRelayPlugin_name = Inr apmTransaction"
    and "startSpan (apm this) ''relay'' = Inr span"
    and "log (loggerService this)
           (''Sending data to Kafka topic: '' @ PRODUCER_STREAM (configuration this))
           KafkaRelayPlugin_name = None"
  shows "published (fst (relay toString this (StringData text))) =
           [\<lparr>topic = PRODUCER_STREAM (configuration this), messages = [\<lparr>value = text\<rparr>]\<rparr>]"
  using assms
  by (simp add: relay_def relay_try_def relay_log_def relay_send_def then_run_def
        payload_text_def Let_def published_append published_span_end
        published_transaction_end published_relay_catch split: option.splits)

theorem relay_text_publishes_once_witness:
  "published (fst (relay ascii_toString ready_plugin (StringData ''hello''))) =
     [\<lparr>topic = ''test-topic'', messages = [\<lparr>value = ''hello''\<rparr>]\<rparr>]"
  using relay_text_publishes_once [of ready_plugin mockProducer "Some (Handle None)"
          "Some (Handle None)" ascii_toString "''hello''"]
  by (simp add: fixture_defs)

text \<open>
  What \<^verbatim>\<open>relay\<close> logs and how it ends, from the way the \<^verbatim>\<open>try\<close> block was left.
\<close>

lemma relay_try_exception_source:
  assumes "snd (snd (relay_try toString this data)) = Some e"
  shows "startTransaction (apm this) KafkaRelayPlugin_name = Inl e
       \<or> startSpan (apm this) ''relay'' = Inl e
       \<or> log (loggerService this)
            (''Sending data to Kafka topic: '' @ PRODUCER_STREAM (configuration this))
            KafkaRelayPlugin_name = Some e
       \<or> (\<exists>p. producer this = Some p
              \<and> send p \<lparr>topic = PRODUCER_STREAM (configuration this),
                          messages = [\<lparr>value = payload_text toString data\<rparr>]\<rparr> = Some e)
       \<or> (\<exists>h. startSpan (apm this) ''relay'' = Inr (Some h) \<and> end_call h = Some e)"
  using assms
  by (auto simp: relay_try_def relay_log_def relay_send_def span_end_def then_run_def Let_def
        split: sum.splits option.splits)

lemma relay_result_after_try:
  assumes "relay_try toString this data = (t, tx, r)"
  shows "error_logs (fst (relay toString this data)) =
           (case r of None \<Rightarrow> []
            | Some e \<Rightarrow> (case message e of Inl _ \<Rightarrow> [] | Inr m \<Rightarrow> [''Kafka relay error: '' @ m]))"
    and "snd (relay toString this data) =
           (case snd (transaction_end tx) of
              Some e \<Rightarrow> Inl e
            | None \<Rightarrow>
                (case r of None \<Rightarrow> Inr ()
                 | Some e \<Rightarrow> (case snd (relay_catch this e) of Some e' \<Rightarrow> Inl e' | None \<Rightarrow> Inr ())))"
proof -
  have quiet: "error_logs t = []"
    using error_logs_relay_try [of toString this data] assms by simp
  show "error_logs (fst (relay toString this data)) =
           (case r of None \<Rightarrow> []
            | Some e \<Rightarrow> (case message e of Inl _ \<Rightarrow> [] | Inr m \<Rightarrow> [''Kafka relay error: '' @ m]))"
    using assms quiet
    by (simp add: relay_def relay_catch_def Let_def error_logs_append
          split: option.splits sum.splits)
  show "snd (relay toString this data) =
           (case snd (transaction_end tx) of
              Some e \<Rightarrow> Inl e
            | None \<Rightarrow>
                (case r of None \<Rightarrow> Inr ()
                 | Some e \<Rightarrow> (case snd (relay_catch this e) of Some e' \<Rightarrow> Inl e' | None \<Rightarrow> Inr ())))"
    using assms by (simp add: relay_def Let_def split: option.splits)
qed

text \<open>The \<^verbatim>\<open>try\<close> block, by what the collaborators do.\<close>

lemma relay_try_cases:
  "startTransaction (apm this) KafkaRelayPlugin_name = Inl e \<Longrightarrow>
     snd (relay_try toString this data) = (None, Some e)"
  "startTransaction (apm this) KafkaRelayPlugin_name = Inr tx \<Longrightarrow>
   startSpan (apm this) ''relay'' = Inl e \<Longrightarrow>
     snd (relay_try toString this data) = (tx, Some e)"
  "startTransaction (apm this) KafkaRelayPlugin_name = Inr tx \<Longrightarrow>
   startSpan (apm this) ''relay'' = Inr span \<Longrightarrow>
   log (loggerService this)
     (''Sending data to Kafka topic: '' @ PRODUCER_STREAM (configuration this))
     KafkaRelayPlugin_name = Some e \<Longrightarrow>
     snd (relay_try toString this data) = (tx, Some e)"
  "startTransaction (apm this) KafkaRelayPlugin_name = Inr tx \<Longrightarrow>
   startSpan (apm this) ''relay'' = Inr span \<Longrightarrow>
   log (loggerService this)
     (''Sending data to Kafka topic: '' @ PRODUCER_STREAM (configuration this))
     KafkaRelayPlugin_name = None \<Longrightarrow>
   producer this = Some p \<Longrightarrow>
   send p \<lparr>topic = PRODUCER_STREAM (configuration this),
            messages = [\<lparr>value = payload_text toString data\<rparr>]\<rparr> = Some e \<Longrightarrow>
     snd (relay_try toString this data) = (tx, Some e)"
  "startTransaction (apm this) KafkaRelayPlugin_name = Inr tx \<Longrightarrow>
   startSpan (apm this) ''relay'' = Inr span \<Longrightarrow>
   log (loggerService this)
     (''Sending data to Kafka topic: '' @ PRODUCER_STREAM (configuration this))
     KafkaRelayPlugin_name = None \<Longrightarrow>
   producer this = None
     \<or> (\<exists>p. producer this = Some p
           \<and> send p \<lparr>topic = PRODUCER_STREAM (configuration this),
                       messages = [\<lparr>value = payload_text toString data\<rparr>]\<rparr> = None) \<Longrightarrow>
     snd (relay_try toString this data) =
       (tx, case span of None \<Rightarrow> None | Some h \<Rightarrow> end_call h)"
  by (auto simp: relay_try_def relay_log_def relay_send_def span_end_def then_run_def Let_def
        split: sum.splits option.splits)


lemma relay_when_try_throws:
  assumes "snd (relay_try toString this data) = (tx, Some (Thrown m))"
  shows "error_logs (fst (relay toString this data)) = [''Kafka relay error: '' @ m]"
    and "snd (relay toString this data) =
           (case snd (transaction_end tx) of
              Some e \<Rightarrow> Inl e
            | None \<Rightarrow>
                (case error (loggerService this) (''Kafka relay error: '' @ m)
                        KafkaRelayPlugin_name of
                   Some e \<Rightarrow> Inl e
                 | None \<Rightarrow> Inr ()))"
proof -
  obtain t where tried: "relay_try toString this data = (t, tx, Some (Thrown m))"
    using assms by (cases "relay_try toString this data") auto
  show "error_logs (fst (relay toString this data)) = [''Kafka relay error: '' @ m]"
    using relay_result_after_try(1) [OF tried] by simp
  show "snd (relay toString this data) =
           (case snd (transaction_end tx) of
              Some e \<Rightarrow> Inl e
            | None \<Rightarrow>
                (case error (loggerService this) (''Kafka relay error: '' @ m)
                        KafkaRelayPlugin_name of
                   Some e \<Rightarrow> Inl e
                 | None \<Rightarrow> Inr ()))"
    using relay_result_after_try(2) [OF tried]
    by (simp add: relay_catch_def split: option.splits)
qed

lemma relay_when_try_returns:
  assumes "snd (relay_try toString this data) = (tx, None)"
  shows "error_logs (fst (relay toString this data)) = []"
    and "snd (relay toString this data) =
           (case snd (transaction_end tx) of Some e \<Rightarrow> Inl e | None \<Rightarrow> Inr ())"
proof -
  obtain t where tried: "relay_try toString this data = (t, tx, None)"
    using assms by (cases "relay_try toString this data") auto
  show "error_logs (fst (relay toString this data)) = []"
    using relay_result_after_try(1) [OF tried] by simp
  show "snd (relay toString this data) =
           (case snd (transaction_end tx) of Some e \<Rightarrow> Inl e | None \<Rightarrow> Inr ())"
    using relay_result_after_try(2) [OF tried] by (simp split: option.splits)
qed

lemma transaction_end_guarded:
  assumes "\<forall>t. startTransaction (apm this) KafkaRelayPlugin_name = Inr (Some t)
               \<longrightarrow> end_call t = None"
    and "startTransaction (apm this) KafkaRelayPlugin_name = Inr tx"
  shows "snd (transaction_end tx) = None"
  using assms by (cases tx) (simp_all add: transaction_end_def)

lemma relay_logged:
  assumes "snd (relay_try toString this data) = (tx, Some (Thrown m))"
    and "snd (transaction_end tx) = None"
    and "\<forall>m. error (loggerService this) (''Kafka relay error: '' @ m) KafkaRelayPlugin_name
              = None"
  shows "error_logs (fst (relay toString this data)) = [''Kafka relay error: '' @ m]
         \<and> snd (relay toString this data) = Inr ()"
  using relay_when_try_throws [OF assms(1)] assms(2,3) by simp

lemma relay_quiet:
  assumes "snd (relay_try toString this data) = (tx, None)"
    and "snd (transaction_end tx) = None"
  shows "error_logs (fst (relay toString this data)) = []
         \<and> snd (relay toString this data) = Inr ()"
  using relay_when_try_returns [OF assms(1)] assms(2) by simp

text \<open>
  Claim C1, as the code has it, on what the collaborators do. Let the error log call
  and \<^verbatim>\<open>end()\<close> of the transaction return. Then an exception \<open>Thrown m\<close> of any statement
  of the \<^verbatim>\<open>try\<close> block (the transaction start, the span start, the log call, the
  publish, \<^verbatim>\<open>end()\<close> of the span), the statements before it having returned, is caught:
  the one error log is \<^verbatim>\<open>Kafka relay error: m\<close> and the call returns normally; with no
  exception nothing is logged as an error; and whenever no collaborator throws
  \<^verbatim>\<open>null\<close> or \<^verbatim>\<open>undefined\<close>, the call returns normally. Nothing guards the \<^verbatim>\<open>catch\<close> and
  \<^verbatim>\<open>finally\<close> blocks themselves: an exception of \<^verbatim>\<open>end()\<close> of the transaction always
  reaches the caller, and so does one of the error log call when \<^verbatim>\<open>end()\<close> returns.
\<close>

theorem relay_never_throws:
  "(let n = KafkaRelayPlugin_name;
        line = ''Sending data to Kafka topic: '' @ PRODUCER_STREAM (configuration this);
        request = \<lparr>topic = PRODUCER_STREAM (configuration this),
                   messages = [\<lparr>value = payload_text toString data\<rparr>]\<rparr>;
        result = relay toString this data;
        label = ''Kafka relay error: '';
        end_returns = (\<forall>t. startTransaction (apm this) n = Inr (Some t) \<longrightarrow> end_call t = None);
        guarded = ((\<forall>m. error (loggerService this) (label @ m) n = None) \<and> end_returns);
        logged = (\<lambda>m. error_logs (fst result) = [label @ m] \<and> snd result = Inr ())
    in (guarded \<longrightarrow>
          (startTransaction (apm this) n = Inl (Thrown m) \<longrightarrow> logged m)
        \<and> (startTransaction (apm this) n = Inr tx \<longrightarrow>
             (startSpan (apm this) ''relay'' = Inl (Thrown m) \<longrightarrow> logged m)
           \<and> (startSpan (apm this) ''relay'' = Inr span \<longrightarrow>
                (log (loggerService this) line n = Some (Thrown m) \<longrightarrow> logged m)
              \<and> (log (loggerService this) line n = None \<longrightarrow>
                   (producer this = Some p \<longrightarrow> send p request = Some (Thrown m) \<longrightarrow> logged m)
                 \<and> (producer this = None \<or> (producer this = Some p \<and> send p request = None) \<longrightarrow>
                      (span = Some h \<longrightarrow> end_call h = Some (Thrown m) \<longrightarrow> logged m)
                    \<and> (span = None \<or> (span = Some h \<and> end_call h = None) \<longrightarrow>
                         error_logs (fst result) = [] \<and> snd result = Inr ())))))
        \<and> (startTransaction (apm this) n \<notin> {Inl ThrownNull, Inl ThrownUndefined}
             \<and> startSpan (apm this) ''relay'' \<notin> {Inl ThrownNull, Inl ThrownUndefined}
             \<and> log (loggerService this) line n \<notin> {Some ThrownNull, Some ThrownUndefined}
             \<and> (\<forall>q. producer this = Some q \<longrightarrow>
                    send q request \<notin> {Some ThrownNull, Some ThrownUndefined})
             \<and> (\<forall>s. startSpan (apm this) ''relay'' = Inr (Some s) \<longrightarrow>
                    end_call s \<notin> {Some ThrownNull, Some ThrownUndefined})
             \<longrightarrow> snd result = Inr ()))
     \<and> (startTransaction (apm this) n = Inr (Some t) \<longrightarrow> end_call t = Some e \<longrightarrow>
          snd result = Inl e)
     \<and> (error_logs (fst result) = [label @ m] \<longrightarrow>
          error (loggerService this) (label @ m) n = Some e \<longrightarrow> end_returns \<longrightarrow>
          snd result = Inl e))"
proof -
  let ?n = KafkaRelayPlugin_name
  let ?line = "''Sending data to Kafka topic: '' @ PRODUCER_STREAM (configuration this)"
  let ?request = "\<lparr>topic = PRODUCER_STREAM (configuration this),
                    messages = [\<lparr>value = payload_text toString data\<rparr>]\<rparr>"
  let ?result = "relay toString this data"
  let ?error = "\<lambda>m. error (loggerService this) (''Kafka relay error: '' @ m) ?n"
  let ?end_returns = "\<forall>t. startTransaction (apm this) ?n = Inr (Some t) \<longrightarrow> end_call t = None"
  let ?logged = "\<lambda>m. error_logs (fst ?result) = [''Kafka relay error: '' @ m]
                      \<and> snd ?result = Inr ()"
  obtain t0 tx0 r0 where tried: "relay_try toString this data = (t0, tx0, r0)"
    by (cases "relay_try toString this data") auto
  have started: "tx0 = tx'" if "startTransaction (apm this) ?n = Inr tx'" for tx'
    using relay_try_transaction_started [OF that, of toString data] tried by simp
  have not_started: "tx0 = None" if "startTransaction (apm this) ?n = Inl e'" for e'
    using relay_try_cases(1) [OF that, of toString data] tried by simp
  have final: "snd (transaction_end tx0) = None" if "?end_returns"
  proof (cases "startTransaction (apm this) ?n")
    case (Inl e')
    from not_started [OF this] show ?thesis by (simp add: transaction_end_def)
  next
    case (Inr tx')
    from transaction_end_guarded [OF that this] started [OF Inr] show ?thesis by simp
  qed
  have step1: "?logged m"
    if "\<forall>m. ?error m = None" "?end_returns" "startTransaction (apm this) ?n = Inl (Thrown m)"
    using relay_logged [of toString this data tx0 m] relay_try_cases(1) [OF that(3), of toString data]
      not_started [OF that(3)] final [OF that(2)] that(1) by simp
  have step2: "?logged m"
    if "\<forall>m. ?error m = None" "?end_returns" "startTransaction (apm this) ?n = Inr tx"
      "startSpan (apm this) ''relay'' = Inl (Thrown m)"
    using relay_logged [of toString this data tx m] relay_try_cases(2) [OF that(3,4), of toString data]
      started [OF that(3)] final [OF that(2)] that(1) by simp
  have step3: "?logged m"
    if "\<forall>m. ?error m = None" "?end_returns" "startTransaction (apm this) ?n = Inr tx"
      "startSpan (apm this) ''relay'' = Inr span"
      "log (loggerService this) ?line ?n = Some (Thrown m)"
    using relay_logged [of toString this data tx m]
      relay_try_cases(3) [OF that(3,4,5), of toString data]
      started [OF that(3)] final [OF that(2)] that(1) by simp
  have step4: "?logged m"
    if "\<forall>m. ?error m = None" "?end_returns" "startTransaction (apm this) ?n = Inr tx"
      "startSpan (apm this) ''relay'' = Inr span"
      "log (loggerService this) ?line ?n = None"
      "producer this = Some p" "send p ?request = Some (Thrown m)"
    using relay_logged [of toString this data tx m]
      relay_try_cases(4) [OF that(3,4,5,6,7)]
      started [OF that(3)] final [OF that(2)] that(1) by simp
  have after_send: "snd (relay_try toString this data) =
                      (tx, case span of None \<Rightarrow> None | Some h \<Rightarrow> end_call h)"
    if "startTransaction (apm this) ?n = Inr tx"
      "startSpan (apm this) ''relay'' = Inr span"
      "log (loggerService this) ?line ?n = None"
      "producer this = None \<or> (producer this = Some p \<and> send p ?request = None)"
    using relay_try_cases(5) [OF that(1,2,3), of toString data] that(4) by blast
  have step5: "?logged m"
    if "\<forall>m. ?error m = None" "?end_returns" "startTransaction (apm this) ?n = Inr tx"
      "startSpan (apm this) ''relay'' = Inr span"
      "log (loggerService this) ?line ?n = None"
      "producer this = None \<or> (producer this = Some p \<and> send p ?request = None)"
      "span = Some h" "end_call h = Some (Thrown m)"
    using relay_logged [of toString this data tx m] after_send [OF that(3,4,5,6)] that(7,8)
      started [OF that(3)] final [OF that(2)] that(1) by simp
  have step6: "error_logs (fst ?result) = [] \<and> snd ?result = Inr ()"
    if "?end_returns" "startTransaction (apm this) ?n = Inr tx"
      "startSpan (apm this) ''relay'' = Inr span"
      "log (loggerService this) ?line ?n = None"
      "producer this = None \<or> (producer this = Some p \<and> send p ?request = None)"
      "span = None \<or> (span = Some h \<and> end_call h = None)"
    using relay_quiet [of toString this data tx] after_send [OF that(2,3,4,5)] that(6)
      started [OF that(2)] final [OF that(1)] by auto
  have never: "snd ?result = Inr ()"
    if "\<forall>m. ?error m = None" "?end_returns"
      "startTransaction (apm this) ?n \<notin> {Inl ThrownNull, Inl ThrownUndefined}"
      "startSpan (apm this) ''relay'' \<notin> {Inl ThrownNull, Inl ThrownUndefined}"
      "log (loggerService this) ?line ?n \<notin> {Some ThrownNull, Some ThrownUndefined}"
      "\<forall>q. producer this = Some q \<longrightarrow>
             send q ?request \<notin> {Some ThrownNull, Some ThrownUndefined}"
      "\<forall>s. startSpan (apm this) ''relay'' = Inr (Some s) \<longrightarrow>
             end_call s \<notin> {Some ThrownNull, Some ThrownUndefined}"
  proof (cases r0)
    case None
    with relay_quiet [of toString this data tx0] tried final [OF that(2)] show ?thesis by simp
  next
    case (Some e')
    with relay_try_exception_source [of toString this data e'] tried that(3-7)
    obtain m' where "e' = Thrown m'"
      by (cases e') auto
    with Some relay_logged [of toString this data tx0 m'] tried final [OF that(2)] that(1)
    show ?thesis by simp
  qed
  have finally_throws: "snd ?result = Inl e"
    if "startTransaction (apm this) ?n = Inr (Some t)" "end_call t = Some e"
    using relay_result_after_try(2) [OF tried] started [OF that(1)] that(2)
    by (simp add: transaction_end_def)
  have catch_throws: "snd ?result = Inl e"
    if "error_logs (fst ?result) = [''Kafka relay error: '' @ m]" "?error m = Some e" "?end_returns"
  proof -
    from that(1) relay_result_after_try(1) [OF tried] obtain e' where
      r0: "r0 = Some e'" and m: "message e' = Inr m"
      by (auto split: option.splits sum.splits)
    from m have "e' = Thrown m" by (cases e') auto
    with r0 relay_when_try_throws(2) [of toString this data tx0 m] tried final [OF that(3)] that(2)
    show ?thesis by simp
  qed
  show ?thesis
    unfolding Let_def
    apply (intro conjI impI)
    subgoal using step1 by blast
    subgoal using step1 by blast
    subgoal using step2 by blast
    subgoal using step2 by blast
    subgoal using step3 by blast
    subgoal using step3 by blast
    subgoal using step4 by blast
    subgoal using step4 by blast
    subgoal using step5 by blast
    subgoal using step5 by blast
    subgoal using step6 by blast
    subgoal using step6 by blast
    subgoal using never by blast
    subgoal using finally_throws by blast
    subgoal using catch_throws by blast
    done
qed

theorem relay_never_throws_witness:
  "error_logs (fst (relay ascii_toString rejecting_plugin (StringData ''hello'')))
     = [''Kafka relay error: boom'']
   \<and> snd (relay ascii_toString rejecting_plugin (StringData ''hello'')) = Inr ()
   \<and> error_logs (fst (relay ascii_toString (ready_plugin\<lparr>apm := throwingApm\<rparr>)
                        (StringData ''hello'')))
     = [''Kafka relay error: tracer down'']
   \<and> snd (relay ascii_toString (ready_plugin\<lparr>apm := throwingApm\<rparr>) (StringData ''hello''))
     = Inr ()
   \<and> snd (relay ascii_toString (ready_plugin\<lparr>apm := brokenEndApm\<rparr>) (StringData ''hello''))
     = Inl (Thrown ''end failed'')"
proof -
  have publish: "error_logs (fst (relay ascii_toString rejecting_plugin (StringData ''hello'')))
                   = [''Kafka relay error: boom'']
                 \<and> snd (relay ascii_toString rejecting_plugin (StringData ''hello'')) = Inr ()"
    using relay_never_throws [where this = rejecting_plugin and toString = ascii_toString
            and data = "StringData ''hello''" and m = "''boom''"
            and tx = "Some (Handle None)" and span = "Some (Handle None)"
            and p = rejectingProducer]
    by (simp add: Let_def fixture_defs KafkaRelayPlugin_name_def payload_text_def)
  have start: "error_logs (fst (relay ascii_toString (ready_plugin\<lparr>apm := throwingApm\<rparr>)
                                 (StringData ''hello'')))
                 = [''Kafka relay error: tracer down'']
               \<and> snd (relay ascii_toString (ready_plugin\<lparr>apm := throwingApm\<rparr>)
                         (StringData ''hello'')) = Inr ()"
    using relay_never_throws [where this = "ready_plugin\<lparr>apm := throwingApm\<rparr>"
            and toString = ascii_toString and data = "StringData ''hello''"
            and m = "''tracer down''"]
    by (simp add: Let_def fixture_defs throwingApm_def KafkaRelayPlugin_name_def)
  have finish: "snd (relay ascii_toString (ready_plugin\<lparr>apm := brokenEndApm\<rparr>)
                       (StringData ''hello'')) = Inl (Thrown ''end failed'')"
    using relay_never_throws [where this = "ready_plugin\<lparr>apm := brokenEndApm\<rparr>"
            and toString = ascii_toString and data = "StringData ''hello''"
            and t = "Handle (Some (Thrown ''end failed''))" and e = "Thrown ''end failed''"]
    by (simp add: Let_def fixture_defs brokenEndApm_def KafkaRelayPlugin_name_def)
  from publish start finish show ?thesis by simp
qed

text \<open>
  Claim C1 as stated, for every behaviour of the collaborators, fails: with a logger
  whose \<^verbatim>\<open>log\<close> and \<^verbatim>\<open>error\<close> both throw, the exception of \<^verbatim>\<open>error\<close> leaves \<^verbatim>\<open>relay\<close>.
\<close>

theorem relay_rejects_when_error_log_throws:
  "snd (relay ascii_toString broken_logger_plugin (StringData ''hello''))
     = Inl (Thrown ''logger down'')"
  by (simp add: relay_defs fixture_defs)

text \<open>
  The transaction is ended in the \<^verbatim>\<open>finally\<close> block: once in every call that started
  one. The span is ended by the last statement of the \<^verbatim>\<open>try\<close> block only, which a
  rejected publish never reaches.
\<close>

lemma count_transaction_end_statement [simp]:
  "count_list (fst (relay_log this)) TransactionEnd = 0"
  "count_list (fst (relay_send this text)) TransactionEnd = 0"
  "count_list (fst (span_end span)) TransactionEnd = 0"
  "count_list (fst (relay_catch this e)) TransactionEnd = 0"
  by (simp_all add: relay_log_def relay_send_def span_end_def relay_catch_def Let_def
        split: option.splits sum.splits)

lemma count_then_run:
  "count_list (fst s1) x = 0 \<Longrightarrow> count_list (fst s2) x = 0 \<Longrightarrow>
   count_list (fst (then_run s1 s2)) x = 0"
  by (simp add: then_run_def split: option.splits)

lemma count_transaction_end_try:
  "count_list (fst (relay_try toString this data)) TransactionEnd = 0"
  by (simp add: relay_try_def Let_def count_then_run split: sum.splits)

lemma transaction_ended_once:
  assumes "startTransaction (apm this) KafkaRelayPlugin_name = Inr (Some h)"
  shows "count_list (fst (relay toString this data)) TransactionEnd = 1"
proof -
  obtain t tx r where tried: "relay_try toString this data = (t, tx, r)"
    by (cases "relay_try toString this data") auto
  have "tx = Some h"
    using relay_try_transaction_started [OF assms, of toString data] tried by simp
  moreover have "count_list t TransactionEnd = 0"
    using count_transaction_end_try [of toString this data] tried by simp
  ultimately show ?thesis
    using tried by (simp add: relay_def transaction_end_def Let_def split: option.splits)
qed

lemma span_not_ended_when_publish_fails:
  assumes "producer this = Some p"
    and "startTransaction (apm this) KafkaRelayPlugin_name = Inr apmTransaction"
    and "startSpan (apm this) ''relay'' = Inr span"
    and "log (loggerService this)
           (''Sending data to Kafka topic: '' @ PRODUCER_STREAM (configuration this))
           KafkaRelayPlugin_name = None"
    and "send p \<lparr>topic = PRODUCER_STREAM (configuration this),
                 messages = [\<lparr>value = payload_text toString data\<rparr>]\<rparr> = Some e"
  shows "count_list (fst (relay toString this data)) SpanEnd = 0"
  using assms
  by (simp add: relay_def relay_try_def relay_log_def relay_send_def then_run_def
        relay_catch_def transaction_end_def Let_def split: option.splits sum.splits)

text \<open>
  Claim C2, at a call whose publish is rejected with \<^verbatim>\<open>Error("boom")\<close>: the tracer gave a
  span, the transaction is ended once, and \<^verbatim>\<open>end()\<close> of the span is never called.
\<close>

theorem relay_leaves_span_open_when_publish_fails:
  "startSpan (apm rejecting_plugin) ''relay'' = Inr (Some (Handle None))
   \<and> fst (relay ascii_toString rejecting_plugin (StringData ''hello'')) =
       [StartTransaction ''KafkaRelayPlugin'', StartSpan ''relay'',
        Log ''Sending data to Kafka topic: test-topic'' ''KafkaRelayPlugin'',
        Send \<lparr>topic = ''test-topic'', messages = [\<lparr>value = ''hello''\<rparr>]\<rparr>,
        ErrorLog ''Kafka relay error: boom'' ''KafkaRelayPlugin'',
        TransactionEnd]
   \<and> count_list (fst (relay ascii_toString rejecting_plugin (StringData ''hello''))) SpanEnd = 0"
  by (simp add: relay_defs fixture_defs)

subsection \<open>Byte payloads\<close>

text \<open>A \<^verbatim>\<open>Buffer\<close> is published as the runtime decodes it.\<close>

lemma relay_buffer_publishes_decoded:
  assumes "producer this = Some p"
    and "startTransaction (apm this) KafkaRelayPlugin_name = Inr apmTransaction"
    and "startSpan (apm this) ''relay'' = Inr span"
    and "log (loggerService this)
           (''Sending data to Kafka topic: '' @ PRODUCER_STREAM (configuration this))
           KafkaRelayPlugin_name = None"
  shows "published (fst (relay toString this (BufferData bs))) =
           [\<lparr>topic = PRODUCER_STREAM (configuration this),
             messages = [\<lparr>value = toString bs\<rparr>]\<rparr>]"
  using assms
  by (simp add: relay_def relay_try_def relay_log_def relay_send_def then_run_def
        payload_text_def Let_def published_append published_span_end
        published_transaction_end published_relay_catch split: option.splits)

lemma JSON_stringify_hi: "JSON_stringify [104, 105] = ''{\"0\":104,\"1\":105}''"
  by code_simp

lemma ascii_toString_hi: "ascii_toString [104, 105] = ''hi''"
  by code_simp

text \<open>
  Claim C6, at the bytes of \<^verbatim>\<open>"hi"\<close> in a \<^verbatim>\<open>Uint8Array\<close> that is not a \<^verbatim>\<open>Buffer\<close>
  (\<^verbatim>\<open>new TextEncoder().encode("hi")\<close>): \<^verbatim>\<open>Buffer.isBuffer\<close> is false, the value is not a
  string, and what is published is \<^verbatim>\<open>JSON.stringify\<close> of the array, not the decoded text.
\<close>

theorem relay_uint8array_publishes_json:
  "published (fst (relay toString ready_plugin (Uint8ArrayData [104, 105]))) =
     [\<lparr>topic = ''test-topic'', messages = [\<lparr>value = ''{\"0\":104,\"1\":105}''\<rparr>]\<rparr>]
   \<and> ascii_toString [104, 105] = ''hi''"
  by (simp add: relay_defs fixture_defs JSON_stringify_hi ascii_toString_hi)

subsection \<open>relay without a producer\<close>










subsection \<open>init\<close>

text \<open>
  Claim C8, as the code has it. When \<^verbatim>\<open>connect()\<close> rejects, \<^verbatim>\<open>init()\<close> has called it
  once, rejects with the same exception and does not log the confirmation; the
  producer it had just created stays assigned to the instance.
\<close>

theorem init_connect_failure:
  assumes "log (loggerService this)
             (''Initializing Kafka producer for broker: ''
                @ template (DESTINATION_TRANSPORT_URL (configuration this)))
             KafkaRelayPlugin_name = None"
    and "kafka_producer (kafka this) = Inr p"
    and "connect p = Some e"
  shows "init this =
           ([Log (''Initializing Kafka producer for broker: ''
                    @ template (DESTINATION_TRANSPORT_URL (configuration this)))
                 KafkaRelayPlugin_name,
             ProducerCreated, Connect],
            Inl e,
            this\<lparr>producer := Some p\<rparr>)"
  using assms by (simp add: init_def Let_def)

theorem init_connect_failure_witness:
  "init unreachable_plugin =
     ([Log ''Initializing Kafka producer for broker: localhost:9092'' ''KafkaRelayPlugin'',
       ProducerCreated, Connect],
      Inl (Thrown ''Connection error''),
      unreachable_plugin\<lparr>producer := Some unreachableProducer\<rparr>)"
  using init_connect_failure [of unreachable_plugin unreachableProducer
          "Thrown ''Connection error''"]
  by (simp add: fixture_defs template_def KafkaRelayPlugin_name_def)

text \<open>
  Claim C8 as stated fails: after an \<^verbatim>\<open>init()\<close> whose connection failed, the instance
  holds a producer.
\<close>

theorem init_keeps_producer_when_connect_fails:
  "producer unreachable_plugin = None
   \<and> fst (snd (init unreachable_plugin)) = Inl (Thrown ''Connection error'')
   \<and> producer (snd (snd (init unreachable_plugin))) = Some unreachableProducer"
  by (simp add: init_def fixture_defs template_def KafkaRelayPlugin_name_def)

text \<open>
  Claim C10. Whatever producer the instance holds, \<^verbatim>\<open>init()\<close> asks the client for a
  producer, assigns it in place of the old one and connects it (the first log call and
  \<^verbatim>\<open>producer()\<close> returning); when the connection and the second log call succeed, it
  returns normally.
\<close>

theorem init_replaces_producer:
  assumes "log (loggerService this)
             (''Initializing Kafka producer for broker: ''
                @ template (DESTINATION_TRANSPORT_URL (configuration this)))
             KafkaRelayPlugin_name = None"
    and "kafka_producer (kafka this) = Inr p"
  shows "producer (snd (snd (init this))) = Some p
         \<and> (\<exists>rest. fst (init this) =
               [Log (''Initializing Kafka producer for broker: ''
                      @ template (DESTINATION_TRANSPORT_URL (configuration this)))
                    KafkaRelayPlugin_name,
                ProducerCreated, Connect] @ rest)
         \<and> (connect p = None \<longrightarrow>
              log (loggerService this) ''Kafka producer connected'' KafkaRelayPlugin_name = None \<longrightarrow>
              fst (snd (init this)) = Inr ())"
  using assms by (simp add: init_def Let_def split: option.splits)

theorem init_replaces_producer_witness:
  "producer rejecting_plugin = Some rejectingProducer
   \<and> rejectingProducer \<noteq> mockProducer
   \<and> producer (snd (snd (init rejecting_plugin))) = Some mockProducer
   \<and> fst (init rejecting_plugin) =
       [Log ''Initializing Kafka producer for broker: localhost:9092'' ''KafkaRelayPlugin'',
        ProducerCreated, Connect, Log ''Kafka producer connected'' ''KafkaRelayPlugin'']
   \<and> fst (snd (init rejecting_plugin)) = Inr ()"
proof -
  have different: "rejectingProducer \<noteq> mockProducer"
  proof
    assume "rejectingProducer = mockProducer"
    then have "send rejectingProducer = send mockProducer" by simp
    then have "send rejectingProducer \<lparr>topic = [], messages = []\<rparr>
                 = send mockProducer \<lparr>topic = [], messages = []\<rparr>" by simp
    then show False by (simp add: rejectingProducer_def mockProducer_def)
  qed
  have trace: "fst (init rejecting_plugin) =
       [Log ''Initializing Kafka producer for broker: localhost:9092'' ''KafkaRelayPlugin'',
        ProducerCreated, Connect, Log ''Kafka producer connected'' ''KafkaRelayPlugin'']"
    by (simp add: init_def fixture_defs template_def KafkaRelayPlugin_name_def)
  show ?thesis
    using init_replaces_producer [of rejecting_plugin mockProducer] different trace
    by (simp add: fixture_defs template_def KafkaRelayPlugin_name_def)
qed

end
